theory Spec2Isabelle
  imports Complex_Main
begin

section \<open>Worm-like chain models (wlc/models.py)\<close>

text \<open>
  The model functions work on numpy arrays elementwise; each is embedded at one element.
  The numbers are \<^typ>\<open>real\<close>, standing for the floats of the source, so a result is
  exact where the float is rounded. A division by zero has no real value in the source
  (ZeroDivisionError on Python floats, inf or nan on numpy values), so every model
  returns \<^typ>\<open>real option\<close>, with \<open>None\<close> wherever a divisor of the source's
  expression is zero.
\<close>

definition WLC :: "real \<Rightarrow> real \<Rightarrow> real \<Rightarrow> real \<Rightarrow> real option" where
  "WLC d kBT Lc Lp =
     (let d = d * 1000 in
      if Lp = 0 \<or> Lc = 0 \<or> (1 - d / Lc)\<^sup>2 = 0 then None
      else Some ((kBT / Lp) * (0.25 / (1 - d / Lc)\<^sup>2 - 0.25 + d / Lc)))"

definition eWLC :: "real \<times> real \<Rightarrow> real \<Rightarrow> real \<Rightarrow> real \<Rightarrow> real \<Rightarrow> real option" where
  "eWLC fdata kBT Lc Lp S =
     (let (d, F) = fdata;
          d = d * 1000 in
      if Lp = 0 \<or> Lc = 0 \<or> S = 0 \<or> (1 - (d / Lc - F / S))\<^sup>2 = 0 then None
      else Some ((kBT / Lp) * (0.25 / (1 - (d / Lc - F / S))\<^sup>2 - 0.25 + (d / Lc - F / S))))"

text \<open>The correction coefficients, and the loop that sums the correction.\<close>

definition alpha :: "real list" where
  "alpha = [-0.5164228, -2.737418, 16.07497, -38.87607, 39.49944, -14.17718]"

definition correction :: "real \<Rightarrow> real" where
  "correction l = fold (\<lambda>n corr. corr + alpha ! n * l ^ (n + 2)) [0..<length alpha] 0"

definition bouchiat :: "real \<Rightarrow> real \<Rightarrow> real \<Rightarrow> real \<Rightarrow> real option" where
  "bouchiat d kBT Lc Lp =
     (let d = d * 1000 in
      if Lp = 0 \<or> Lc = 0 \<or> (1 - d / Lc)\<^sup>2 = 0 then None
      else Some ((kBT / Lp) * (0.25 / (1 - d / Lc)\<^sup>2 - 0.25 + d / Lc + correction (d / Lc))))"

definition ebouchiat :: "real \<times> real \<Rightarrow> real \<Rightarrow> real \<Rightarrow> real \<Rightarrow> real \<Rightarrow> real option" where
  "ebouchiat fdata kBT Lc Lp S =
     (let (d, F) = fdata;
          d = d * 1000 in
      if Lp = 0 \<or> Lc = 0 \<or> S = 0 then None
      else let l = d / Lc - F / S in
        if (1 - l)\<^sup>2 = 0 then None
        else Some ((kBT / Lp) * (0.25 / (1 - l)\<^sup>2 - 0.25 + l + correction l)))"

text \<open>
  The correction term as the specification words it: the sum over the powers 2 to 7 of
  the coefficient times the rescaled relative extension, times \<open>kBT / Lp\<close>.
\<close>

definition correction_term_spec :: "real \<Rightarrow> real \<Rightarrow> real \<Rightarrow> real \<Rightarrow> real" where
  "correction_term_spec d kBT Lc Lp =
     (kBT / Lp) * (\<Sum>n = 2..7. alpha ! (n - 2) * (1000 * d / Lc) ^ n)"

text \<open>
  The remainder left when \<open>l * (3.76 * l\<^sup>2 - 5.26 * l + 1.49)\<^sup>2\<close> is taken out of the
  negated correction polynomial divided by \<open>l\<^sup>2\<close>; it is used to settle the sign of the
  correction.
\<close>

definition remainder :: "real \<Rightarrow> real" where
  "remainder l = 0.03958 * l^5 + 0.05576 * l^4 + 0.00367 * l^3 - 0.40017 * l\<^sup>2
                 + 0.517318 * l + 0.5164228"

text \<open>
  The correction polynomial divided by \<open>l\<^sup>2\<close>, at \<open>l = - t\<close>: every power of \<open>t\<close> has a
  positive coefficient.
\<close>

definition mirrored :: "real \<Rightarrow> real" where
  "mirrored t = 14.17718 * t^5 + 39.49944 * t^4 + 38.87607 * t^3 + 16.07497 * t\<^sup>2
                + 2.737418 * t - 0.5164228"


section \<open>The fitter (wlc/fitting.py)\<close>

subsection \<open>Errors and data\<close>

text \<open>
  The exceptions the fitter can raise: \<open>ValueError\<close> is raised by the source itself,
  \<open>KeyError\<close> by a dictionary or a data frame asked for a key or label it does not
  have, \<open>IndexError\<close> by indexing an empty array.
\<close>

datatype error = ValueError | KeyError | IndexError

datatype func = func_WLC | func_bouchiat | func_odijk | func_eWLC

text \<open>The instance after \<open>__init__\<close>: the model function and the model name.\<close>

record WormLikeChain =
  func :: func
  model :: string

text \<open>
  A parameter of the fitting model with its initial value and its bounds, and the
  parameter set \<open>self.fparams\<close>: \<open>kBT\<close> with its \<open>vary\<close> flag, \<open>Lc\<close>, \<open>Lp\<close>,
  and \<open>S\<close> for the models that have it.
\<close>

record parameter =
  p_value :: real
  p_min :: real
  p_max :: real

record parameters =
  par_kBT :: real
  par_kBT_vary :: bool
  par_Lc :: parameter
  par_Lp :: parameter
  par_S :: "parameter option"

text \<open>
  What the minimizer returns, as far as \<open>fit\<close> reads it: the fitted values and the
  goodness-of-fit statistic. The field \<open>r_S\<close> is read for the models with a stretch
  modulus only.
\<close>

record fit_result =
  r_Lc :: real
  r_Lp :: real
  r_S :: real
  r_chisqr :: real

text \<open>
  The minimizer \<open>self.fmodel.fit\<close> is outside the repository. It is a parameter of the
  embedding: a function of the keyword that binds the independent data and of the
  current parameter set (the measurement and the method are fixed during a run).
\<close>

datatype binding = bind_F | bind_fdata | bind_d

type_synonym minimizer = "binding \<Rightarrow> parameters \<Rightarrow> fit_result"

text \<open>The convergence quantity \<open>dLp\<close> starts as \<open>np.infty\<close>.\<close>

datatype xreal = Infty | Fin real

fun gt :: "xreal \<Rightarrow> real \<Rightarrow> bool" where
  "gt Infty m = True"
| "gt (Fin r) m = (r > m)"

text \<open>A row of the data frame \<open>df_full\<close>, and the row \<open>df_file\<close> that \<open>fit\<close> returns.\<close>

record row =
  Lc_nm :: real
  Lp_nm :: real
  S_pN :: "real option"
  Chisqr :: real
  filename :: "string option"
  iter :: nat
  dLp_nm :: xreal

record summary =
  opt_Lc_nm :: real
  opt_Lp_nm :: real
  opt_S_pN :: "real option"
  nFittings :: nat
  opt_filename :: "string option"

text \<open>
  The compiled instance: the parameter set, and the attributes \<open>result\<close> and
  \<open>df_full\<close> that \<open>fit\<close> stores (absent until then). \<open>fit\<close> is embedded on compiled
  instances.
\<close>

record Compiled = WormLikeChain +
  fparams :: parameters
  result :: "fit_result option"
  df_full :: "row list option"

subsection \<open>Construction\<close>

definition init :: "string \<Rightarrow> error + WormLikeChain" where
  "init m =
     (if m = ''WLC'' then Inr \<lparr>func = func_WLC, model = m\<rparr>
      else if m = ''bouchiat'' then Inr \<lparr>func = func_bouchiat, model = m\<rparr>
      else if m = ''odijk'' then Inr \<lparr>func = func_odijk, model = m\<rparr>
      else if m = ''eWLC'' then Inr \<lparr>func = func_eWLC, model = m\<rparr>
      else Inl ValueError)"

subsection \<open>compile\<close>

definition KB :: real where
  "KB = 0.013806"

definition getitem :: "(string \<rightharpoonup> real) \<Rightarrow> string \<Rightarrow> error + real" where
  "getitem params k = (case params k of None \<Rightarrow> Inl KeyError | Some v \<Rightarrow> Inr v)"

text \<open>The value of \<open>kBT\<close> that \<open>compile\<close> registers, or the error it raises.\<close>

definition compile_kBT :: "(string \<rightharpoonup> real) \<Rightarrow> error + real" where
  "compile_kBT params =
     (if ''kBT'' \<in> dom params \<and> ''T'' \<notin> dom params then getitem params ''kBT''
      else if ''kBT'' \<notin> dom params \<and> ''T'' \<in> dom params then
        (case getitem params ''T'' of Inl e \<Rightarrow> Inl e | Inr T \<Rightarrow> Inr (KB * (273.15 + T)))
      else
        (case getitem params ''kBT'' of Inl e \<Rightarrow> Inl e | Inr kBT \<Rightarrow>
         case getitem params ''T'' of Inl e \<Rightarrow> Inl e | Inr T \<Rightarrow>
           if kBT = KB * (273.15 + T) then Inr kBT else Inl ValueError))"

text \<open>
  One \<open>set_param_hint\<close> call with \<open>value\<close>, \<open>min\<close> and \<open>max\<close> read from the dictionary,
  in this order; the hint is kept as it is given.
\<close>

definition param_hint :: "(string \<rightharpoonup> real) \<Rightarrow> string \<Rightarrow> error + parameter" where
  "param_hint params k =
     (case getitem params k of Inl e \<Rightarrow> Inl e | Inr v \<Rightarrow>
      case getitem params (k @ ''_lower'') of Inl e \<Rightarrow> Inl e | Inr lo \<Rightarrow>
      case getitem params (k @ ''_upper'') of Inl e \<Rightarrow> Inl e | Inr hi \<Rightarrow>
        Inr \<lparr>p_value = v, p_min = lo, p_max = hi\<rparr>)"

definition compile :: "WormLikeChain \<Rightarrow> (string \<rightharpoonup> real) \<Rightarrow> error + Compiled" where
  "compile self params =
     (case compile_kBT params of Inl e \<Rightarrow> Inl e | Inr kBT \<Rightarrow>
      case param_hint params ''Lc'' of Inl e \<Rightarrow> Inl e | Inr Lc \<Rightarrow>
      case param_hint params ''Lp'' of Inl e \<Rightarrow> Inl e | Inr Lp \<Rightarrow>
      case (if model self = ''odijk'' \<or> model self = ''eWLC''
            then (case param_hint params ''S'' of Inl e \<Rightarrow> Inl e | Inr S \<Rightarrow> Inr (Some S))
            else Inr None) of Inl e \<Rightarrow> Inl e | Inr S \<Rightarrow>
        Inr \<lparr>func = func self, model = model self,
             fparams = \<lparr>par_kBT = kBT, par_kBT_vary = False, par_Lc = Lc, par_Lp = Lp, par_S = S\<rparr>,
             result = None, df_full = None\<rparr>)"

subsection \<open>fit\<close>

text \<open>
  The state of the loop of \<open>fit\<close>: the attributes \<open>self.fparams\<close> and \<open>self.result\<close>
  that the loop assigns, and the local variables \<open>df_full\<close>, \<open>dLp\<close> and \<open>i\<close>. The
  field \<open>n_calls\<close> is not a variable of the source: it counts the calls of the
  minimizer.
\<close>

record fit_state =
  self_fparams :: parameters
  self_result :: "fit_result option"
  loc_df_full :: "row list"
  loc_dLp :: xreal
  loc_i :: nat
  n_calls :: nat

text \<open>
  \<open>df_full.loc[k, 'Lp[nm]']\<close>: the frame is only ever built by \<open>pd.concat\<close> with
  \<open>ignore_index=True\<close>, so its labels are \<open>0, ..., len - 1\<close>; any other label raises
  \<open>KeyError\<close>.
\<close>

definition loc_Lp :: "row list \<Rightarrow> nat \<Rightarrow> error + real" where
  "loc_Lp df k = (if k < length df then Inr (Lp_nm (df ! k)) else Inl KeyError)"

text \<open>
  \<open>self.fparams["Lp"].set(Lp)\<close>: the parameter object belongs to the minimizer's
  library; its \<open>set\<close> is taken to store the value it is given and to leave the bounds.
\<close>

definition set_Lp :: "parameters \<Rightarrow> real \<Rightarrow> parameters" where
  "set_Lp ps v = ps\<lparr>par_Lp := (par_Lp ps)\<lparr>p_value := v\<rparr>\<rparr>"

text \<open>
  The call of the minimizer in the loop: \<open>odijk\<close> binds the force as the independent
  variable, \<open>eWLC\<close> the measurement pair, every other model the distance.
\<close>

definition minimize :: "minimizer \<Rightarrow> string \<Rightarrow> parameters \<Rightarrow> fit_result" where
  "minimize fmodel_fit mdl ps =
     (if mdl = ''odijk'' then fmodel_fit bind_F ps
      else if mdl = ''eWLC'' then fmodel_fit bind_fdata ps
      else fmodel_fit bind_d ps)"

text \<open>
  One pass through the body of the while loop: the fit, the convergence quantity, the
  new row, the filter, the update of \<open>Lp\<close> and of \<open>i\<close>. An exception leaves the loop
  with the state as it is at that point: the minimizer has been called and
  \<open>self.result\<close> assigned, nothing else. The fitted values are real numbers here, so
  the comparisons of the filter never meet a nan.
\<close>

definition fit_iter :: "minimizer \<Rightarrow> string \<Rightarrow> string option \<Rightarrow> fit_state
    \<Rightarrow> error \<times> fit_state + fit_state" where
  "fit_iter fmodel_fit mdl fname s =
     (let res = minimize fmodel_fit mdl (self_fparams s);
          s1 = s\<lparr>self_result := Some res, n_calls := Suc (n_calls s)\<rparr>;
          Lc = r_Lc res;
          Lp = r_Lp res;
          S = (if mdl = ''odijk'' \<or> mdl = ''eWLC'' then Some (r_S res) else None);
          chisqr = r_chisqr res
      in case (if 0 < loc_i s
               then (case loc_Lp (loc_df_full s) (loc_i s - 1) of
                       Inl e \<Rightarrow> Inl e
                     | Inr prev \<Rightarrow> Inr (Fin \<bar>Lp - prev\<bar>))
               else Inr (loc_dLp s)) of
           Inl e \<Rightarrow> Inl (e, s1)
         | Inr dLp \<Rightarrow>
            (let df_res = \<lparr>Lc_nm = Lc, Lp_nm = Lp, S_pN = S, Chisqr = chisqr,
                           filename = fname, iter = loc_i s + 1, dLp_nm = dLp\<rparr>;
                 df = (if Lc \<le> p_min (par_Lc (self_fparams s)) \<or> Lc \<ge> p_max (par_Lc (self_fparams s))
                       then loc_df_full s
                       else if Lp \<le> p_min (par_Lp (self_fparams s)) \<or> Lp \<ge> p_max (par_Lp (self_fparams s))
                       then loc_df_full s
                       else loc_df_full s @ [df_res])
             in Inr (s1\<lparr>loc_dLp := dLp, loc_df_full := df,
                        self_fparams := set_Lp (self_fparams s) Lp,
                        loc_i := loc_i s + 1\<rparr>)))"

text \<open>The while loop, with its guard \<open>(dLp > min_delta) and (i < max_iters)\<close>.\<close>

function fit_loop :: "minimizer \<Rightarrow> string \<Rightarrow> string option \<Rightarrow> real \<Rightarrow> int \<Rightarrow> fit_state
    \<Rightarrow> error \<times> fit_state + fit_state" where
  "fit_loop fmodel_fit mdl fname min_delta max_iters s =
     (if gt (loc_dLp s) min_delta \<and> int (loc_i s) < max_iters
      then (case fit_iter fmodel_fit mdl fname s of
              Inl es \<Rightarrow> Inl es
            | Inr s' \<Rightarrow> fit_loop fmodel_fit mdl fname min_delta max_iters s')
      else Inr s)"
  by pat_completeness auto
termination
  by (relation "measure (\<lambda>(fmodel_fit, mdl, fname, min_delta, max_iters, s). nat (max_iters - int (loc_i s)))")
     (auto simp add: fit_iter_def Let_def split: if_splits sum.splits)

declare fit_loop.simps [simp del]

text \<open>The state in which \<open>fit\<close> enters the loop.\<close>

definition fit_start :: "Compiled \<Rightarrow> fit_state" where
  "fit_start self =
     \<lparr>self_fparams = fparams self, self_result = result self,
      loc_df_full = [], loc_dLp = Infty, loc_i = 0, n_calls = 0\<rparr>"

text \<open>\<open>df_full[[...]].values[-1]\<close> repackaged as \<open>df_file\<close>.\<close>

definition df_file :: "row list \<Rightarrow> error + summary" where
  "df_file df =
     (if df = [] then Inl IndexError
      else Inr \<lparr>opt_Lc_nm = Lc_nm (last df), opt_Lp_nm = Lp_nm (last df), opt_S_pN = S_pN (last df),
                nFittings = iter (last df), opt_filename = filename (last df)\<rparr>)"

text \<open>
  \<open>fit\<close> returns the summary row or the exception raised, together with the instance as
  the call leaves it: \<open>self.df_full\<close> is assigned only when the summary row was built.
\<close>

definition fit :: "minimizer \<Rightarrow> Compiled \<Rightarrow> real \<Rightarrow> int \<Rightarrow> string option
    \<Rightarrow> (error + summary) \<times> Compiled" where
  "fit fmodel_fit self min_delta max_iters fname =
     (case fit_loop fmodel_fit (model self) fname min_delta max_iters (fit_start self) of
        Inl (e, s) \<Rightarrow> (Inl e, self\<lparr>fparams := self_fparams s, result := self_result s\<rparr>)
      | Inr s \<Rightarrow>
         (case df_file (loc_df_full s) of
            Inl e \<Rightarrow> (Inl e, self\<lparr>fparams := self_fparams s, result := self_result s\<rparr>)
          | Inr r \<Rightarrow> (Inr r, self\<lparr>fparams := self_fparams s, result := self_result s,
                                  df_full := Some (loc_df_full s)\<rparr>)))"

subsection \<open>Predicates used in the statements\<close>

text \<open>
  The acceptance condition as the specification words it: both fitted values strictly
  inside their bounds.
\<close>

definition within_bounds :: "parameters \<Rightarrow> fit_result \<Rightarrow> bool" where
  "within_bounds ps res \<longleftrightarrow>
     p_min (par_Lc ps) < r_Lc res \<and> r_Lc res < p_max (par_Lc ps) \<and>
     p_min (par_Lp ps) < r_Lp res \<and> r_Lp res < p_max (par_Lp ps)"

text \<open>Two parameter sets that differ at most in the initial value of \<open>Lp\<close>.\<close>

definition same_but_Lp_value :: "parameters \<Rightarrow> parameters \<Rightarrow> bool" where
  "same_but_Lp_value ps ps' \<longleftrightarrow>
     par_kBT ps' = par_kBT ps \<and> par_kBT_vary ps' = par_kBT_vary ps \<and>
     par_Lc ps' = par_Lc ps \<and> par_S ps' = par_S ps \<and>
     p_min (par_Lp ps') = p_min (par_Lp ps) \<and> p_max (par_Lp ps') = p_max (par_Lp ps)"

fun nonneg :: "xreal \<Rightarrow> bool" where
  "nonneg Infty = True"
| "nonneg (Fin r) = (0 \<le> r)"

subsection \<open>Example runs\<close>

text \<open>
  A compiled instance of the \<open>WLC\<close> model with \<open>Lc\<close> in \<open>(500, 1500)\<close> seeded at 1000
  and \<open>Lp\<close> in \<open>(10, 100)\<close> seeded at 40, and three minimizers: one whose every fit is
  inside the bounds, one whose first fit lands on the upper bound of \<open>Lc\<close>, one whose
  second fit does.
\<close>

definition example_params :: parameters where
  "example_params =
     \<lparr>par_kBT = 4.1, par_kBT_vary = False,
      par_Lc = \<lparr>p_value = 1000, p_min = 500, p_max = 1500\<rparr>,
      par_Lp = \<lparr>p_value = 40, p_min = 10, p_max = 100\<rparr>,
      par_S = None\<rparr>"

definition example_self :: Compiled where
  "example_self =
     \<lparr>func = func_WLC, model = ''WLC'', fparams = example_params, result = None, df_full = None\<rparr>"

definition fitted :: "real \<Rightarrow> real \<Rightarrow> fit_result" where
  "fitted Lc Lp = \<lparr>r_Lc = Lc, r_Lp = Lp, r_S = 0, r_chisqr = 1\<rparr>"

definition accept_all :: minimizer where
  "accept_all b ps = fitted 1000 50"

definition reject_first :: minimizer where
  "reject_first b ps =
     (if p_value (par_Lp ps) = 40 then fitted 1500 50 else fitted 1000 50)"

definition reject_second :: minimizer where
  "reject_second b ps =
     (if p_value (par_Lp ps) = 40 then fitted 1000 50
      else if p_value (par_Lp ps) = 50 then fitted 1500 60
      else fitted 1000 55)"

definition example_row :: "nat \<Rightarrow> xreal \<Rightarrow> row" where
  "example_row k x =
     \<lparr>Lc_nm = 1000, Lp_nm = 50, S_pN = None, Chisqr = 1, filename = None, iter = k, dLp_nm = x\<rparr>"

text \<open>The loop states these runs pass through.\<close>

definition rejected_state :: fit_state where
  "rejected_state =
     \<lparr>self_fparams = set_Lp example_params 50, self_result = Some (fitted 1500 50),
      loc_df_full = [], loc_dLp = Infty, loc_i = 1, n_calls = 1\<rparr>"

definition accepted_state :: fit_state where
  "accepted_state =
     \<lparr>self_fparams = set_Lp example_params 50, self_result = Some (fitted 1000 50),
      loc_df_full = [example_row 1 Infty], loc_dLp = Infty, loc_i = 1, n_calls = 1\<rparr>"


definition after_rejection :: fit_state where
  "after_rejection =
     \<lparr>self_fparams = set_Lp example_params 60, self_result = Some (fitted 1500 60),
      loc_df_full = [example_row 1 Infty], loc_dLp = Fin 10, loc_i = 2, n_calls = 2\<rparr>"

text \<open>A parameter dictionary with both \<open>kBT\<close> and \<open>T\<close>, and every other key present.\<close>

definition spec_params :: "real \<Rightarrow> real \<Rightarrow> (string \<rightharpoonup> real)" where
  "spec_params kBT T =
     [''kBT'' \<mapsto> kBT, ''T'' \<mapsto> T,
      ''Lc'' \<mapsto> 1000, ''Lc_lower'' \<mapsto> 500, ''Lc_upper'' \<mapsto> 1500,
      ''Lp'' \<mapsto> 40, ''Lp_lower'' \<mapsto> 10, ''Lp_upper'' \<mapsto> 100,
      ''S'' \<mapsto> 1000, ''S_lower'' \<mapsto> 100, ''S_upper'' \<mapsto> 2000]"

section \<open>Properties of the models\<close>

subsection \<open>The correction polynomial\<close>

lemma upt6: "[0..<6] = [0, 1, 2, 3, 4, 5::nat]"
  by (simp add: upt_rec)

lemma correction_poly:
  "correction l = - 0.5164228 * l^2 - 2.737418 * l^3 + 16.07497 * l^4
                  - 38.87607 * l^5 + 39.49944 * l^6 - 14.17718 * l^7"
  by (simp add: correction_def alpha_def upt6 eval_nat_numeral)

lemma atLeastAtMost27: "{2..7::nat} = {2, 3, 4, 5, 6, 7}"
  by auto

lemma correction_sum: "(\<Sum>n = 2..7. alpha ! (n - 2) * x ^ n) = correction x"
  by (simp add: correction_poly atLeastAtMost27 alpha_def)

lemma correction_term_spec_eq:
  "correction_term_spec d kBT Lc Lp = (kBT / Lp) * correction (1000 * d / Lc)"
  by (simp only: correction_term_spec_def correction_sum)

lemma correction_factor:
  "correction l = - (l\<^sup>2 * (l * (3.76 * l\<^sup>2 - 5.26 * l + 1.49)\<^sup>2
       + (0.03958 * l^5 + 0.05576 * l^4 + 0.00367 * l^3 - 0.40017 * l\<^sup>2 + 0.517318 * l + 0.5164228)))"
  unfolding correction_poly
  by (simp add: power2_eq_square power3_eq_cube algebra_simps eval_nat_numeral)

lemma remainder_pos_low:
  assumes "0 \<le> l" "l \<le> 1.9"
  shows "0 < remainder l"
proof -
  have eq: "remainder l = 0.03958 * l^5 + 0.05576 * l^4 + 0.00367 * l^3
              + 0.40017 * (l * (1.9 - l)) + (0.5164228 - 0.243005 * l)"
    by (simp add: remainder_def power2_eq_square field_simps)
  have a: "0 \<le> 0.03958 * l^5" "0 \<le> 0.05576 * l^4" "0 \<le> 0.00367 * l^3"
    using assms by simp_all
  have b: "0 \<le> 0.40017 * (l * (1.9 - l))" using assms by simp
  have c: "0 < 0.5164228 - 0.243005 * l" using assms by simp
  show ?thesis unfolding eq by (intro add_nonneg_pos add_nonneg_nonneg a b c)
qed

lemma remainder_pos_high:
  assumes "1.9 \<le> l"
  shows "0 < remainder l"
proof -
  have l0: "0 \<le> l" using assms by simp
  have eq: "remainder l = l\<^sup>2 * (0.03958 * l^3 + 0.05576 * l\<^sup>2 - 0.40017)
              + 0.00367 * l^3 + 0.517318 * l + 0.5164228"
    by (simp add: remainder_def power2_eq_square power3_eq_cube algebra_simps eval_nat_numeral)
  have p2: "1.9\<^sup>2 \<le> l\<^sup>2" using assms by (intro power_mono) simp_all
  have p3: "1.9^3 \<le> l^3" using assms by (intro power_mono) simp_all
  have "0 \<le> 0.03958 * l^3 + 0.05576 * l\<^sup>2 - 0.40017"
    using p2 p3 by (simp add: power2_eq_square power3_eq_cube)
  then have a: "0 \<le> l\<^sup>2 * (0.03958 * l^3 + 0.05576 * l\<^sup>2 - 0.40017)" by simp
  have b: "0 \<le> 0.00367 * l^3" using l0 by simp
  have c: "0 \<le> 0.517318 * l" using l0 by simp
  have d: "(0::real) < 0.5164228" by simp
  show ?thesis unfolding eq by (intro add_nonneg_pos add_nonneg_nonneg a b c d)
qed

text \<open>For a positive relative extension the correction is negative, so not zero.\<close>

lemma correction_neg:
  assumes "0 < l"
  shows "correction l < 0"
proof -
  have r: "0 < remainder l"
    using remainder_pos_low [of l] remainder_pos_high [of l] assms by (cases "l \<le> 1.9") simp_all
  have "0 \<le> l * (3.76 * l\<^sup>2 - 5.26 * l + 1.49)\<^sup>2" using assms by simp
  with r have "0 < l * (3.76 * l\<^sup>2 - 5.26 * l + 1.49)\<^sup>2 + remainder l" by simp
  moreover have "0 < l\<^sup>2" using assms by simp
  ultimately have "0 < l\<^sup>2 * (l * (3.76 * l\<^sup>2 - 5.26 * l + 1.49)\<^sup>2 + remainder l)"
    by (rule mult_pos_pos [rotated])
  then show ?thesis unfolding correction_factor remainder_def by simp
qed

text \<open>For a negative argument the correction is \<open>t\<^sup>2 * mirrored t\<close>, and \<open>mirrored\<close> increases.\<close>

lemma correction_mirrored: "correction (- t) = t\<^sup>2 * mirrored t"
  unfolding correction_poly mirrored_def
  by (simp add: power2_eq_square power3_eq_cube algebra_simps eval_nat_numeral)

lemma mirrored_mono:
  assumes "0 \<le> s" "s \<le> t"
  shows "mirrored s \<le> mirrored t"
proof -
  have p: "s^5 \<le> t^5" "s^4 \<le> t^4" "s^3 \<le> t^3" "s\<^sup>2 \<le> t\<^sup>2"
    using assms by (simp_all add: power_mono)
  have "14.17718 * s^5 \<le> 14.17718 * t^5" "39.49944 * s^4 \<le> 39.49944 * t^4"
    "38.87607 * s^3 \<le> 38.87607 * t^3" "16.07497 * s\<^sup>2 \<le> 16.07497 * t\<^sup>2"
    "2.737418 * s \<le> 2.737418 * t"
    using p assms(2) by simp_all
  then show ?thesis unfolding mirrored_def
    by (intro diff_right_mono add_mono)
qed

text \<open>
  On the negative side the correction changes sign once, between \<open>-0.1053\<close> and
  \<open>-0.1052\<close>: it is positive below and negative above.
\<close>

lemma mirrored_low: "mirrored 0.1052 < 0"
  by (simp add: mirrored_def eval_nat_numeral)

lemma mirrored_high: "0 < mirrored 0.1053"
  by (simp add: mirrored_def eval_nat_numeral)

lemma correction_neg_near_zero:
  assumes "- 0.1052 \<le> l" "l < 0"
  shows "correction l < 0"
proof -
  have "mirrored (- l) \<le> mirrored 0.1052" using assms by (intro mirrored_mono) simp_all
  with mirrored_low have "mirrored (- l) < 0" by simp
  moreover have "0 < (- l)\<^sup>2" using assms by simp
  ultimately have "(- l)\<^sup>2 * mirrored (- l) < 0" by (rule mult_pos_neg [rotated])
  then show ?thesis using correction_mirrored [of "- l"] by simp
qed

lemma correction_pos_far:
  assumes "l \<le> - 0.1053"
  shows "0 < correction l"
proof -
  have "mirrored 0.1053 \<le> mirrored (- l)" using assms by (intro mirrored_mono) simp_all
  with mirrored_high have "0 < mirrored (- l)" by simp
  moreover have "0 < (- l)\<^sup>2" using assms by simp
  ultimately have "0 < (- l)\<^sup>2 * mirrored (- l)" by (rule mult_pos_pos [rotated])
  then show ?thesis using correction_mirrored [of "- l"] by simp
qed

lemma correction_root_bracket: "\<exists>l. - 0.1053 < l \<and> l < - 0.1052 \<and> correction l = 0"
proof -
  have "\<exists>l. - 0.1053 \<le> l \<and> l \<le> - 0.1052 \<and> correction l = 0"
  proof (rule IVT2)
    show "correction (- 0.1052) \<le> 0" using correction_neg_near_zero [of "- 0.1052"] by simp
    show "0 \<le> correction (- 0.1053)" using correction_pos_far [of "- 0.1053"] by simp
    show "- 0.1053 \<le> (- 0.1052 :: real)" by simp
    show "\<forall>x. - 0.1053 \<le> x \<and> x \<le> - 0.1052 \<longrightarrow> isCont correction x"
      unfolding correction_poly [abs_def] by (intro allI impI continuous_intros)
  qed
  then obtain l where l: "- 0.1053 \<le> l" "l \<le> - 0.1052" "correction l = 0" by blast
  from l(3) correction_pos_far [of l] have "\<not> l \<le> - 0.1053" by auto
  moreover from l(3) correction_neg_near_zero [of l] l(2) have "\<not> - 0.1052 \<le> l" by auto
  ultimately show ?thesis using l(3) by (intro exI [of _ l]) simp
qed

text \<open>Away from that bracket and from 0 the correction is not zero.\<close>

lemma correction_nonzero:
  assumes "l \<noteq> 0" "l \<le> - 0.1053 \<or> - 0.1052 \<le> l"
  shows "correction l \<noteq> 0"
proof (cases "0 < l")
  case True
  then show ?thesis using correction_neg [of l] by simp
next
  case False
  with assms(1) have neg: "l < 0" by simp
  from assms(2) show ?thesis
  proof
    assume "l \<le> - 0.1053"
    then show ?thesis using correction_pos_far [of l] by simp
  next
    assume "- 0.1052 \<le> l"
    with neg show ?thesis using correction_neg_near_zero [of l] by simp
  qed
qed


subsection \<open>Where the models have a value\<close>

lemma WLC_Some:
  "Lp \<noteq> 0 \<Longrightarrow> Lc \<noteq> 0 \<Longrightarrow> 1000 * d \<noteq> Lc \<Longrightarrow>
   WLC d kBT Lc Lp = Some ((kBT / Lp) * (0.25 / (1 - 1000 * d / Lc)\<^sup>2 - 0.25 + 1000 * d / Lc))"
  by (simp add: WLC_def Let_def mult.commute)

lemma bouchiat_Some:
  "Lp \<noteq> 0 \<Longrightarrow> Lc \<noteq> 0 \<Longrightarrow> 1000 * d \<noteq> Lc \<Longrightarrow>
   bouchiat d kBT Lc Lp = Some ((kBT / Lp) * (0.25 / (1 - 1000 * d / Lc)\<^sup>2 - 0.25 + 1000 * d / Lc
      + correction (1000 * d / Lc)))"
  by (simp add: bouchiat_def Let_def mult.commute)

lemma WLC_None_iff: "WLC d kBT Lc Lp = None \<longleftrightarrow> Lp = 0 \<or> Lc = 0 \<or> 1000 * d = Lc"
  by (auto simp add: WLC_def Let_def mult.commute)

lemma bouchiat_None_iff: "bouchiat d kBT Lc Lp = None \<longleftrightarrow> Lp = 0 \<or> Lc = 0 \<or> 1000 * d = Lc"
  by (auto simp add: bouchiat_def Let_def mult.commute)

subsection \<open>Claim C8: bouchiat is WLC plus the correction\<close>

text \<open>
  Claim C8, as amended. Wherever the divisions of the source are defined (\<open>Lp\<close> and
  \<open>Lc\<close> not zero, the rescaled distance not equal to \<open>Lc\<close>), \<open>bouchiat\<close> is \<open>WLC\<close>
  plus \<open>kBT / Lp\<close> times the sum over the powers 2 to 7 of the fixed coefficients times
  \<open>1000 * d / Lc\<close>, and each model has a value exactly where the other has. The
  correction is not zero whenever \<open>kBT\<close> and \<open>d / Lc\<close> are not zero and
  \<open>1000 * d / Lc\<close> is not strictly between \<open>-0.1053\<close> and \<open>-0.1052\<close>; strictly
  between these two, for every \<open>Lc\<close> not zero, there is a distance at which the
  correction is zero whatever \<open>kBT\<close> is. At \<open>d = 0\<close> both models are exactly 0, for
  \<open>Lp\<close> and \<open>Lc\<close> not zero.
\<close>

theorem bouchiat_is_WLC_plus_correction:
  "(Lp \<noteq> 0 \<and> Lc \<noteq> 0 \<and> 1000 * d \<noteq> Lc \<longrightarrow>
      (\<exists>w. WLC d kBT Lc Lp = Some w \<and>
           bouchiat d kBT Lc Lp = Some (w + correction_term_spec d kBT Lc Lp)))
   \<and> (bouchiat d kBT Lc Lp = None \<longleftrightarrow> WLC d kBT Lc Lp = None)
   \<and> (kBT \<noteq> 0 \<and> Lp \<noteq> 0 \<and> d / Lc \<noteq> 0 \<and>
       (1000 * d / Lc \<le> - 0.1053 \<or> - 0.1052 \<le> 1000 * d / Lc)
      \<longrightarrow> correction_term_spec d kBT Lc Lp \<noteq> 0)
   \<and> (Lc \<noteq> 0 \<longrightarrow>
       (\<exists>d'. - 0.1053 < 1000 * d' / Lc \<and> 1000 * d' / Lc < - 0.1052 \<and>
             correction_term_spec d' kBT Lc Lp = 0))
   \<and> (Lp \<noteq> 0 \<and> Lc \<noteq> 0 \<longrightarrow> WLC 0 kBT Lc Lp = Some 0 \<and> bouchiat 0 kBT Lc Lp = Some 0)"
proof -
  have sum: "\<exists>w. WLC d kBT Lc Lp = Some w \<and>
           bouchiat d kBT Lc Lp = Some (w + correction_term_spec d kBT Lc Lp)"
    if "Lp \<noteq> 0 \<and> Lc \<noteq> 0 \<and> 1000 * d \<noteq> Lc"
    using that by (simp add: WLC_Some bouchiat_Some correction_term_spec_eq distrib_left)
  have none: "bouchiat d kBT Lc Lp = None \<longleftrightarrow> WLC d kBT Lc Lp = None"
    by (simp only: WLC_None_iff bouchiat_None_iff)
  have nonzero: "correction_term_spec d kBT Lc Lp \<noteq> 0"
    if h: "kBT \<noteq> 0 \<and> Lp \<noteq> 0 \<and> d / Lc \<noteq> 0 \<and>
       (1000 * d / Lc \<le> - 0.1053 \<or> - 0.1052 \<le> 1000 * d / Lc)"
  proof -
    from h have "1000 * d / Lc \<noteq> 0" by simp
    with h have "correction (1000 * d / Lc) \<noteq> 0" by (intro correction_nonzero) simp_all
    with h show ?thesis by (simp add: correction_term_spec_eq)
  qed
  have root: "\<exists>d'. - 0.1053 < 1000 * d' / Lc \<and> 1000 * d' / Lc < - 0.1052 \<and>
             correction_term_spec d' kBT Lc Lp = 0" if "Lc \<noteq> 0"
  proof -
    from correction_root_bracket obtain l where
      l: "- 0.1053 < l" "l < - 0.1052" "correction l = 0" by blast
    have "1000 * (l * Lc / 1000) / Lc = l" using that by simp
    with l show ?thesis
      by (intro exI [of _ "l * Lc / 1000"]) (simp add: correction_term_spec_eq)
  qed
  have zero: "WLC 0 kBT Lc Lp = Some 0 \<and> bouchiat 0 kBT Lc Lp = Some 0"
    if "Lp \<noteq> 0 \<and> Lc \<noteq> 0"
    using that by (simp add: WLC_def bouchiat_def correction_poly)
  from sum none nonzero root zero show ?thesis by blast
qed

theorem bouchiat_is_WLC_plus_correction_witness:
  "WLC 0.5 4.1 1000 50 = Some (41 / 400) \<and>
   bouchiat 0.5 4.1 1000 50 = Some (41 / 400 + correction_term_spec 0.5 4.1 1000 50) \<and>
   (0.5::real) / 1000 \<noteq> 0 \<and> - 0.1052 \<le> 1000 * (0.5::real) / 1000 \<and>
   correction_term_spec 0.5 4.1 1000 50 \<noteq> 0 \<and>
   (- 0.2::real) / 1000 \<noteq> 0 \<and> 1000 * (- 0.2::real) / 1000 \<le> - 0.1053 \<and>
   correction_term_spec (- 0.2) 4.1 1000 50 \<noteq> 0 \<and>
   (\<exists>d'. - 0.1053 < 1000 * d' / 1000 \<and> 1000 * d' / 1000 < - 0.1052 \<and>
         correction_term_spec d' 4.1 1000 50 = 0) \<and>
   WLC 0 4.1 1000 50 = Some 0 \<and> bouchiat 0 4.1 1000 50 = Some 0"
  using bouchiat_is_WLC_plus_correction [of 50 1000 "0.5" "4.1"]
    bouchiat_is_WLC_plus_correction [of 50 1000 "- 0.2" "4.1"]
  by (auto simp add: WLC_Some power2_eq_square)


text \<open>
  The claim as it was stated, "the correction is nonzero whenever \<open>d / Lc\<close> is not zero",
  fails where \<open>kBT\<close> is zero.
\<close>

theorem correction_zero_counterexample:
  "(0.0005::real) / 1 \<noteq> 0 \<and> correction_term_spec 0.0005 0 1 1 = 0"
  by (simp add: correction_term_spec_def)

subsection \<open>Claim C9: WLC increases with the distance\<close>

text \<open>
  Claim C9. For \<open>kBT\<close>, \<open>Lc\<close> and \<open>Lp\<close> positive, \<open>WLC\<close> is strictly increasing in the
  distance as long as the distance, rescaled to nanometres, stays below \<open>Lc\<close>; and
  \<open>WLC\<close> is 0 at distance 0.
\<close>

theorem WLC_increasing:
  assumes "0 < kBT" "0 < Lc" "0 < Lp"
  shows "(0 \<le> d1 \<and> d1 < d2 \<and> 1000 * d2 < Lc \<longrightarrow>
           (\<exists>F1 F2. WLC d1 kBT Lc Lp = Some F1 \<and> WLC d2 kBT Lc Lp = Some F2 \<and> F1 < F2))
         \<and> WLC 0 kBT Lc Lp = Some 0"
proof (intro conjI impI)
  assume h: "0 \<le> d1 \<and> d1 < d2 \<and> 1000 * d2 < Lc"
  define x1 where "x1 = 1000 * d1 / Lc"
  define x2 where "x2 = 1000 * d2 / Lc"
  have x: "0 \<le> x1" "x1 < x2" "x2 < 1"
    using h assms by (simp_all add: x1_def x2_def divide_strict_right_mono)
  have c: "0 < kBT / Lp" using assms by simp
  have "(1 - x2)\<^sup>2 < (1 - x1)\<^sup>2" using x by (intro power_strict_mono) simp_all
  moreover have "0 < (1 - x1)\<^sup>2 * (1 - x2)\<^sup>2"
    using x by (intro mult_pos_pos) simp_all
  ultimately have "0.25 / (1 - x1)\<^sup>2 < 0.25 / (1 - x2)\<^sup>2"
    by (intro divide_strict_left_mono) simp_all
  with x have "0.25 / (1 - x1)\<^sup>2 - 0.25 + x1 < 0.25 / (1 - x2)\<^sup>2 - 0.25 + x2" by simp
  with c have lt: "(kBT / Lp) * (0.25 / (1 - x1)\<^sup>2 - 0.25 + x1)
                 < (kBT / Lp) * (0.25 / (1 - x2)\<^sup>2 - 0.25 + x2)"
    by (rule mult_strict_left_mono [rotated])
  have ne: "1000 * d1 \<noteq> Lc" "1000 * d2 \<noteq> Lc" "Lc \<noteq> 0" "Lp \<noteq> 0" using h assms by simp_all
  show "\<exists>F1 F2. WLC d1 kBT Lc Lp = Some F1 \<and> WLC d2 kBT Lc Lp = Some F2 \<and> F1 < F2"
    using lt ne by (simp add: WLC_Some x1_def x2_def)
next
  show "WLC 0 kBT Lc Lp = Some 0" using assms by (simp add: WLC_def)
qed

theorem WLC_increasing_witness:
  "(0::real) < 4.1 \<and> (0::real) < 1000 \<and> (0::real) < 50 \<and> (0::real) \<le> 0.25 \<and> (0.25::real) < 0.5
   \<and> 1000 * (0.5::real) < 1000
   \<and> (\<exists>F1 F2. WLC 0.25 4.1 1000 50 = Some F1 \<and> WLC 0.5 4.1 1000 50 = Some F2 \<and> F1 < F2)
   \<and> WLC 0 4.1 1000 50 = Some 0"
  using WLC_increasing [of "4.1" 1000 50 "0.25" "0.5"] by simp

text \<open>
  The rescaling matters: with the distance compared to \<open>Lc\<close> as it is passed, in
  micrometres, the force is not monotone.
\<close>

lemma WLC_not_monotone_unscaled:
  "(0.0009::real) < 0.003 \<and> (0.003::real) < 1 \<and>
   WLC 0.0009 1 1 1 = Some 25.65 \<and> WLC 0.003 1 1 1 = Some 2.8125"
  by (simp add: WLC_def power2_eq_square)

subsection \<open>Claim C10: the extensible models at zero force\<close>

text \<open>
  Claim C10. For a stretch modulus that is not zero, \<open>eWLC\<close> at force 0 is \<open>WLC\<close> and
  \<open>ebouchiat\<close> at force 0 is \<open>bouchiat\<close>, for every distance and all parameters.
\<close>

theorem extensible_zero_force:
  "S \<noteq> 0 \<Longrightarrow>
   eWLC (d, 0) kBT Lc Lp S = WLC d kBT Lc Lp \<and> ebouchiat (d, 0) kBT Lc Lp S = bouchiat d kBT Lc Lp"
  by (simp add: eWLC_def WLC_def ebouchiat_def bouchiat_def Let_def)

theorem extensible_zero_force_witness:
  "(1000::real) \<noteq> 0 \<and> eWLC (0.5, 0) 4.1 1000 50 1000 = Some (41 / 400)
   \<and> ebouchiat (0.5, 0) 4.1 1000 50 1000 = bouchiat 0.5 4.1 1000 50"
  using extensible_zero_force [of 1000 "0.5" "4.1" 1000 50]
  by (simp add: WLC_Some power2_eq_square)

section \<open>Properties of the fitter\<close>

subsection \<open>One iteration\<close>

text \<open>
  An iteration raises exactly when it is not the first and the frame has fewer rows than
  iterations were run, that is, when an earlier iteration was filtered out: the label
  \<open>i - 1\<close> is then missing. The minimizer has been called by then.
\<close>

lemma fit_iter_KeyError:
  assumes "0 < loc_i s" "length (loc_df_full s) < loc_i s"
  shows "fit_iter m mdl fn s =
           Inl (KeyError, s\<lparr>self_result := Some (minimize m mdl (self_fparams s)),
                             n_calls := Suc (n_calls s)\<rparr>)"
  using assms by (simp add: fit_iter_def Let_def loc_Lp_def)

lemma fit_iter_Inl:
  assumes "fit_iter m mdl fn s = Inl (e, s')"
  shows "e = KeyError \<and> 0 < loc_i s \<and> length (loc_df_full s) < loc_i s \<and>
         s' = s\<lparr>self_result := Some (minimize m mdl (self_fparams s)), n_calls := Suc (n_calls s)\<rparr>"
  using assms by (auto simp add: fit_iter_def Let_def loc_Lp_def split: if_splits)

text \<open>
  An iteration that completes: what it assigns.
\<close>

lemma fit_iter_Inr:
  assumes "fit_iter m mdl fn s = Inr s'"
  shows "self_result s' = Some (minimize m mdl (self_fparams s))"
    and "n_calls s' = Suc (n_calls s)"
    and "loc_i s' = loc_i s + 1"
    and "self_fparams s' = set_Lp (self_fparams s) (r_Lp (minimize m mdl (self_fparams s)))"
    and "loc_i s = 0 \<or> loc_i s \<le> length (loc_df_full s)"
    and "loc_dLp s' = (if 0 < loc_i s
           then Fin \<bar>r_Lp (minimize m mdl (self_fparams s)) - Lp_nm (loc_df_full s ! (loc_i s - 1))\<bar>
           else loc_dLp s)"
  using assms by (auto simp add: fit_iter_def Let_def loc_Lp_def split: if_splits)

lemma fit_iter_df:
  assumes "fit_iter m mdl fn s = Inr s'"
  shows "loc_df_full s' =
     (if within_bounds (self_fparams s) (minimize m mdl (self_fparams s))
      then loc_df_full s @
        [\<lparr>Lc_nm = r_Lc (minimize m mdl (self_fparams s)),
          Lp_nm = r_Lp (minimize m mdl (self_fparams s)),
          S_pN = (if mdl = ''odijk'' \<or> mdl = ''eWLC''
                  then Some (r_S (minimize m mdl (self_fparams s))) else None),
          Chisqr = r_chisqr (minimize m mdl (self_fparams s)),
          filename = fn, iter = loc_i s + 1, dLp_nm = loc_dLp s'\<rparr>]
      else loc_df_full s)"
  using assms
  by (auto simp add: fit_iter_def Let_def loc_Lp_def within_bounds_def split: if_splits)

text \<open>
  When every earlier iteration was accepted, the row labelled \<open>i - 1\<close> is the last row,
  and \<open>dLp\<close> is the distance to the \<open>Lp\<close> of the most recent accepted iteration.
\<close>

lemma dLp_all_accepted:
  assumes "fit_iter m mdl fn s = Inr s'" "0 < loc_i s" "length (loc_df_full s) = loc_i s"
  shows "loc_dLp s' =
     Fin \<bar>r_Lp (minimize m mdl (self_fparams s)) - Lp_nm (last (loc_df_full s))\<bar>"
proof -
  from assms(2,3) have "loc_df_full s \<noteq> []" by auto
  then have "last (loc_df_full s) = loc_df_full s ! (loc_i s - 1)"
    using assms(3) by (simp add: last_conv_nth)
  with fit_iter_Inr(6) [OF assms(1)] assms(2) show ?thesis by simp
qed

subsection \<open>The loop\<close>

text \<open>
  A property that the start state has and every completed iteration under the guard
  keeps holds when the loop ends, and the guard is false then; if the loop raises, the
  iteration that raised started in a state with the property.
\<close>

lemma fit_loop_invariant:
  assumes "fit_loop m mdl fn md mi s = Inr s'" "P s"
    and "\<And>t t'. P t \<Longrightarrow> gt (loc_dLp t) md \<Longrightarrow> int (loc_i t) < mi \<Longrightarrow>
           fit_iter m mdl fn t = Inr t' \<Longrightarrow> P t'"
  shows "P s' \<and> \<not> (gt (loc_dLp s') md \<and> int (loc_i s') < mi)"
  using assms
proof (induction m mdl fn md mi s rule: fit_loop.induct)
  case (1 m mdl fn md mi s)
  show ?case
  proof (cases "gt (loc_dLp s) md \<and> int (loc_i s) < mi")
    case False
    with "1.prems" show ?thesis by (simp add: fit_loop.simps)
  next
    case True
    with "1.prems" obtain t where t: "fit_iter m mdl fn s = Inr t"
      and l: "fit_loop m mdl fn md mi t = Inr s'"
      by (auto simp add: fit_loop.simps [of m mdl fn md mi s] split: sum.splits)
    from "1.prems"(3) [OF "1.prems"(2) _ _ t] True have "P t" by simp
    with "1.IH" [OF True t l] "1.prems"(3) show ?thesis by blast
  qed
qed

lemma fit_loop_raises:
  assumes "fit_loop m mdl fn md mi s = Inl (e, s')" "P s"
    and "\<And>t t'. P t \<Longrightarrow> gt (loc_dLp t) md \<Longrightarrow> int (loc_i t) < mi \<Longrightarrow>
           fit_iter m mdl fn t = Inr t' \<Longrightarrow> P t'"
  shows "\<exists>t. P t \<and> gt (loc_dLp t) md \<and> int (loc_i t) < mi \<and> fit_iter m mdl fn t = Inl (e, s')"
  using assms
proof (induction m mdl fn md mi s rule: fit_loop.induct)
  case (1 m mdl fn md mi s)
  show ?case
  proof (cases "gt (loc_dLp s) md \<and> int (loc_i s) < mi")
    case False
    with "1.prems" show ?thesis by (simp add: fit_loop.simps)
  next
    case True
    show ?thesis
    proof (cases "fit_iter m mdl fn s")
      case (Inl es)
      with True "1.prems" have "fit_iter m mdl fn s = Inl (e, s')"
        by (simp add: fit_loop.simps [of m mdl fn md mi s])
      with True "1.prems" show ?thesis by blast
    next
      case (Inr t)
      with True "1.prems" have l: "fit_loop m mdl fn md mi t = Inl (e, s')"
        by (simp add: fit_loop.simps [of m mdl fn md mi s])
      from "1.prems"(3) [OF "1.prems"(2) _ _ Inr] True have "P t" by simp
      with "1.IH" [OF True Inr l] "1.prems"(3) show ?thesis by blast
    qed
  qed
qed

lemma nonneg_gt: "nonneg x \<Longrightarrow> md < 0 \<Longrightarrow> gt x md"
  by (cases x) simp_all


text \<open>
  The minimizer is called once per iteration, the one that raises included, and never
  more than \<open>max_iters\<close> times.
\<close>

lemma fit_loop_calls_Inr:
  assumes "fit_loop m mdl fn md mi (fit_start self) = Inr s'"
  shows "n_calls s' = loc_i s' \<and> int (loc_i s') \<le> max mi 0"
proof -
  have "(n_calls s' = loc_i s' \<and> int (loc_i s') \<le> max mi 0)
        \<and> \<not> (gt (loc_dLp s') md \<and> int (loc_i s') < mi)"
  proof (rule fit_loop_invariant [OF assms, where P = "\<lambda>t. n_calls t = loc_i t \<and> int (loc_i t) \<le> max mi 0"])
    show "n_calls (fit_start self) = loc_i (fit_start self) \<and> int (loc_i (fit_start self)) \<le> max mi 0"
      by (simp add: fit_start_def)
  next
    fix t t'
    assume "n_calls t = loc_i t \<and> int (loc_i t) \<le> max mi 0" "int (loc_i t) < mi"
      "fit_iter m mdl fn t = Inr t'"
    then show "n_calls t' = loc_i t' \<and> int (loc_i t') \<le> max mi 0"
      using fit_iter_Inr(2,3) [of m mdl fn t t'] by simp
  qed
  then show ?thesis by simp
qed

lemma fit_loop_calls_Inl:
  assumes "fit_loop m mdl fn md mi (fit_start self) = Inl (e, s')"
  shows "e = KeyError \<and> n_calls s' = loc_i s' + 1 \<and> int (n_calls s') \<le> mi"
proof -
  have "\<exists>t. n_calls t = loc_i t \<and> gt (loc_dLp t) md \<and> int (loc_i t) < mi
            \<and> fit_iter m mdl fn t = Inl (e, s')"
  proof (rule fit_loop_raises [OF assms, where P = "\<lambda>t. n_calls t = loc_i t"])
    show "n_calls (fit_start self) = loc_i (fit_start self)" by (simp add: fit_start_def)
  next
    fix t t'
    assume "n_calls t = loc_i t" "fit_iter m mdl fn t = Inr t'"
    then show "n_calls t' = loc_i t'" using fit_iter_Inr(2,3) [of m mdl fn t t'] by simp
  qed
  then obtain t where t: "n_calls t = loc_i t" "int (loc_i t) < mi"
    "fit_iter m mdl fn t = Inl (e, s')" by blast
  from fit_iter_Inl [OF t(3)] t(1,2) show ?thesis by auto
qed

text \<open>
  With a negative \<open>min_delta\<close> a loop that ends without an exception has run
  \<open>max_iters\<close> iterations.
\<close>

lemma fit_loop_all_iterations:
  assumes "fit_loop m mdl fn md mi (fit_start self) = Inr s'" "md < 0" "0 \<le> mi"
  shows "int (loc_i s') = mi"
proof -
  have "(nonneg (loc_dLp s') \<and> int (loc_i s') \<le> mi)
        \<and> \<not> (gt (loc_dLp s') md \<and> int (loc_i s') < mi)"
  proof (rule fit_loop_invariant [OF assms(1), where P = "\<lambda>t. nonneg (loc_dLp t) \<and> int (loc_i t) \<le> mi"])
    show "nonneg (loc_dLp (fit_start self)) \<and> int (loc_i (fit_start self)) \<le> mi"
      using assms(3) by (simp add: fit_start_def)
  next
    fix t t'
    assume "nonneg (loc_dLp t) \<and> int (loc_i t) \<le> mi" "int (loc_i t) < mi"
      "fit_iter m mdl fn t = Inr t'"
    then show "nonneg (loc_dLp t') \<and> int (loc_i t') \<le> mi"
      using fit_iter_Inr(3,6) [of m mdl fn t t'] by simp
  qed
  with nonneg_gt [OF _ assms(2), of "loc_dLp s'"] show ?thesis by auto
qed

text \<open>
  The loop changes nothing of the parameter set but the initial value of \<open>Lp\<close>.
\<close>

lemma same_but_Lp_value_refl: "same_but_Lp_value ps ps"
  by (simp add: same_but_Lp_value_def)

lemma same_but_Lp_value_set_Lp:
  "same_but_Lp_value ps ps' \<Longrightarrow> same_but_Lp_value ps (set_Lp ps' v)"
  by (simp add: same_but_Lp_value_def set_Lp_def)

lemma fit_loop_frame_Inr:
  assumes "fit_loop m mdl fn md mi s = Inr s'"
  shows "same_but_Lp_value (self_fparams s) (self_fparams s')"
proof -
  have "same_but_Lp_value (self_fparams s) (self_fparams s')
        \<and> \<not> (gt (loc_dLp s') md \<and> int (loc_i s') < mi)"
  proof (rule fit_loop_invariant [OF assms, where P = "\<lambda>t. same_but_Lp_value (self_fparams s) (self_fparams t)"])
    show "same_but_Lp_value (self_fparams s) (self_fparams s)" by (rule same_but_Lp_value_refl)
  next
    fix t t'
    assume "same_but_Lp_value (self_fparams s) (self_fparams t)" "fit_iter m mdl fn t = Inr t'"
    then show "same_but_Lp_value (self_fparams s) (self_fparams t')"
      using fit_iter_Inr(4) [of m mdl fn t t'] by (simp add: same_but_Lp_value_set_Lp)
  qed
  then show ?thesis by simp
qed

lemma fit_loop_frame_Inl:
  assumes "fit_loop m mdl fn md mi s = Inl (e, s')"
  shows "same_but_Lp_value (self_fparams s) (self_fparams s')"
proof -
  have "\<exists>t. same_but_Lp_value (self_fparams s) (self_fparams t) \<and> gt (loc_dLp t) md
            \<and> int (loc_i t) < mi \<and> fit_iter m mdl fn t = Inl (e, s')"
  proof (rule fit_loop_raises [OF assms, where P = "\<lambda>t. same_but_Lp_value (self_fparams s) (self_fparams t)"])
    show "same_but_Lp_value (self_fparams s) (self_fparams s)" by (rule same_but_Lp_value_refl)
  next
    fix t t'
    assume "same_but_Lp_value (self_fparams s) (self_fparams t)" "fit_iter m mdl fn t = Inr t'"
    then show "same_but_Lp_value (self_fparams s) (self_fparams t')"
      using fit_iter_Inr(4) [of m mdl fn t t'] by (simp add: same_but_Lp_value_set_Lp)
  qed
  then obtain t where t: "same_but_Lp_value (self_fparams s) (self_fparams t)"
    "fit_iter m mdl fn t = Inl (e, s')" by blast
  from fit_iter_Inl [OF t(2)] have "self_fparams s' = self_fparams t" by simp
  with t(1) show ?thesis by simp
qed

text \<open>
  After a loop that ran and ended without an exception, the initial value of \<open>Lp\<close> is
  the \<open>Lp\<close> of the last fit.
\<close>

lemma fit_loop_last_fitted:
  assumes "fit_loop m mdl fn md mi (fit_start self) = Inr s'" "0 < mi"
  shows "\<exists>res. self_result s' = Some res \<and> p_value (par_Lp (self_fparams s')) = r_Lp res \<and> 0 < loc_i s'"
proof -
  let ?P = "\<lambda>t. (loc_i t = 0 \<longrightarrow> loc_dLp t = Infty) \<and>
     (0 < loc_i t \<longrightarrow> (\<exists>res. self_result t = Some res \<and> p_value (par_Lp (self_fparams t)) = r_Lp res))"
  have "?P s' \<and> \<not> (gt (loc_dLp s') md \<and> int (loc_i s') < mi)"
  proof (rule fit_loop_invariant [OF assms(1), where P = ?P])
    show "?P (fit_start self)" by (simp add: fit_start_def)
  next
    fix t t'
    assume "?P t" "fit_iter m mdl fn t = Inr t'"
    then show "?P t'"
      using fit_iter_Inr(1,3,4) [of m mdl fn t t'] by (simp add: set_Lp_def)
  qed
  with assms(2) show ?thesis by (cases "loc_i s' = 0") auto
qed


subsection \<open>The example runs\<close>

lemmas example_defs = example_params_def example_self_def fitted_def fit_start_def
  minimize_def set_Lp_def loc_Lp_def fit_iter_def Let_def

lemma fit_iter_reject_first:
  "fit_iter reject_first ''WLC'' None (fit_start example_self) = Inr rejected_state"
  by (simp add: reject_first_def rejected_state_def example_defs)

lemma fit_iter_accept_all:
  "fit_iter accept_all ''WLC'' None (fit_start example_self) = Inr accepted_state"
  by (simp add: accept_all_def accepted_state_def example_row_def example_defs)


subsection \<open>Claim C1: the convergence quantity after a rejected iteration\<close>

text \<open>
  Claim C1 says that \<open>dLp\<close> at iteration \<open>i \<ge> 1\<close> is the distance between the fitted
  \<open>Lp\<close> and the \<open>Lp\<close> of the most recent accepted record, also after rejected
  iterations. The source reads the row labelled \<open>i - 1\<close> instead. In the run below
  iteration 0 is accepted with \<open>Lp = 50\<close> and iteration 1 is filtered out (its \<open>Lc\<close> is
  on the upper bound) with \<open>dLp = 10\<close>; iteration 2 fits \<open>Lp = 55\<close>, so the claim
  gives \<open>dLp = 5\<close>, but the frame has one row, the label 1 is missing, and \<open>fit\<close>
  raises \<open>KeyError\<close>.
\<close>

theorem fit_dLp_after_rejection_raises:
  "fit_loop reject_second ''WLC'' None 0.01 2 (fit_start example_self) = Inr after_rejection
   \<and> fit_iter reject_second ''WLC'' None after_rejection =
       Inl (KeyError, after_rejection\<lparr>self_result := Some (fitted 1000 55), n_calls := 3\<rparr>)
   \<and> fst (fit reject_second example_self 0.01 3 None) = Inl KeyError"
  by (simp add: fit_def fit_loop.simps reject_second_def after_rejection_def example_row_def
      example_defs)

subsection \<open>The filter, where an iteration reaches it\<close>

text \<open>
  An iteration completes exactly when it is the first or the frame has a row labelled
  \<open>i - 1\<close>.
\<close>

lemma fit_iter_completes_iff:
  "(\<exists>s'. fit_iter m mdl fn s = Inr s') \<longleftrightarrow> loc_i s = 0 \<or> loc_i s \<le> length (loc_df_full s)"
  by (auto simp add: fit_iter_def Let_def loc_Lp_def split: if_splits)

text \<open>
  An iteration that completes appends its record if and only if the fitted \<open>Lc\<close> and
  \<open>Lp\<close> are strictly inside their bounds; a fitted value equal to a bound leaves the
  frame as it was; and the iteration counter goes up by one either way.
\<close>

lemma filter_when_reached:
  assumes "fit_iter m mdl fn s = Inr s'"
    and "ps = self_fparams s" and "res = minimize m mdl ps"
  shows "(within_bounds ps res \<longleftrightarrow>
            (\<exists>r. loc_df_full s' = loc_df_full s @ [r] \<and> Lc_nm r = r_Lc res \<and>
                 Lp_nm r = r_Lp res \<and> iter r = loc_i s + 1))
         \<and> (\<not> within_bounds ps res \<longrightarrow> loc_df_full s' = loc_df_full s)
         \<and> (r_Lc res = p_min (par_Lc ps) \<or> r_Lc res = p_max (par_Lc ps) \<or>
            r_Lp res = p_min (par_Lp ps) \<or> r_Lp res = p_max (par_Lp ps)
            \<longrightarrow> loc_df_full s' = loc_df_full s)
         \<and> loc_i s' = loc_i s + 1"
  using fit_iter_df [OF assms(1)] fit_iter_Inr(3) [OF assms(1)] assms(2,3)
  by (auto simp add: within_bounds_def)

subsection \<open>Claim C2: the acceptance filter\<close>

text \<open>
  Claim C2 says that every iteration appends its record if and only if the fitted \<open>Lc\<close>
  and \<open>Lp\<close> are strictly inside their bounds. In the run below iteration 0 is filtered
  out (its \<open>Lc\<close> is on the upper bound) and the counter goes to 1; iteration 1 fits
  \<open>Lc = 1000\<close> and \<open>Lp = 50\<close>, both strictly inside their bounds, but the lookup of
  the row labelled 0 in the empty frame raises \<open>KeyError\<close> before the filter is
  reached: the record is not appended, and \<open>fit\<close> ends with the exception.
\<close>

theorem filter_after_rejection_raises:
  "fit_iter reject_first ''WLC'' None (fit_start example_self) = Inr rejected_state
   \<and> within_bounds (self_fparams rejected_state)
        (minimize reject_first ''WLC'' (self_fparams rejected_state))
   \<and> fit_iter reject_first ''WLC'' None rejected_state =
        Inl (KeyError, rejected_state\<lparr>self_result := Some (fitted 1000 50), n_calls := 2\<rparr>)
   \<and> loc_df_full (rejected_state\<lparr>self_result := Some (fitted 1000 50), n_calls := 2\<rparr>) = []
   \<and> fit reject_first example_self 0.01 3 None =
        (Inl KeyError, example_self\<lparr>fparams := set_Lp example_params 50,
                                     result := Some (fitted 1000 50)\<rparr>)"
  by (simp add: fit_def fit_loop.simps within_bounds_def reject_first_def rejected_state_def
      example_defs)


subsection \<open>The warm start, where an iteration completes\<close>

text \<open>
  Every iteration that completes, accepted or filtered out, sets the initial value of
  \<open>Lp\<close> to the fitted \<open>Lp\<close>. Whatever \<open>fit\<close> returns or raises, it leaves the
  instance with the same parameter set but for that value. When the loop ran and ended
  without an exception, the value is the \<open>Lp\<close> of the last fit.
\<close>

lemma warm_start_completed:
  "(fit_iter m mdl fn s = Inr s' \<longrightarrow>
      self_fparams s' = set_Lp (self_fparams s) (r_Lp (minimize m mdl (self_fparams s))))
   \<and> (fit m self md mi fn = (out, self') \<longrightarrow>
        same_but_Lp_value (fparams self) (fparams self') \<and>
        self_fparams (fit_start self') = fparams self')
   \<and> (fit m self md mi fn = (out, self') \<and> out \<noteq> Inl KeyError \<and> 0 < mi \<longrightarrow>
        (\<exists>res. result self' = Some res \<and> p_value (par_Lp (fparams self')) = r_Lp res))"
proof -
  have iteration: "fit_iter m mdl fn s = Inr s' \<longrightarrow>
      self_fparams s' = set_Lp (self_fparams s) (r_Lp (minimize m mdl (self_fparams s)))"
    using fit_iter_Inr(4) [of m mdl fn s s'] by blast
  have frame: "same_but_Lp_value (fparams self) (fparams self') \<and>
        self_fparams (fit_start self') = fparams self'"
    if h: "fit m self md mi fn = (out, self')"
  proof (cases "fit_loop m (model self) fn md mi (fit_start self)")
    case (Inl es)
    obtain e t where es: "es = (e, t)" by (cases es)
    from fit_loop_frame_Inl [OF Inl [unfolded es]] h Inl es show ?thesis
      by (auto simp add: fit_def fit_start_def)
  next
    case (Inr t)
    from fit_loop_frame_Inr [OF Inr] h Inr show ?thesis
      by (auto simp add: fit_def fit_start_def split: sum.splits)
  qed
  have last_fitted: "\<exists>res. result self' = Some res \<and> p_value (par_Lp (fparams self')) = r_Lp res"
    if h: "fit m self md mi fn = (out, self') \<and> out \<noteq> Inl KeyError \<and> 0 < mi"
  proof (cases "fit_loop m (model self) fn md mi (fit_start self)")
    case (Inl es)
    obtain e t where es: "es = (e, t)" by (cases es)
    from fit_loop_calls_Inl [OF Inl [unfolded es]] have "e = KeyError" by simp
    with h Inl es show ?thesis by (auto simp add: fit_def)
  next
    case (Inr t)
    from fit_loop_last_fitted [OF Inr] h obtain res where
      "self_result t = Some res" "p_value (par_Lp (self_fparams t)) = r_Lp res" by blast
    with h Inr show ?thesis by (auto simp add: fit_def split: sum.splits)
  qed
  from iteration frame last_fitted show ?thesis by blast
qed

subsection \<open>Claim C3: the warm start\<close>

text \<open>
  Claim C3 says that after every iteration the initial value of \<open>Lp\<close> is the fitted
  \<open>Lp\<close> of that iteration, so that a second call of \<open>fit\<close> starts from the last fitted
  \<open>Lp\<close> of the first. In the run below iteration 1 is filtered out after fitting
  \<open>Lp = 60\<close>; iteration 2 fits \<open>Lp = 55\<close> and raises \<open>KeyError\<close> on the missing
  label 1 before the value is stored: \<open>self.result\<close> holds the fit with \<open>Lp = 55\<close>,
  the initial value of \<open>Lp\<close> is left at 60, and a second call starts from 60.
\<close>

theorem warm_start_after_rejection_raises:
  "fit reject_second example_self 0.01 3 None =
     (Inl KeyError,
      example_self\<lparr>fparams := set_Lp example_params 60, result := Some (fitted 1000 55)\<rparr>)
   \<and> r_Lp (fitted 1000 55) = 55
   \<and> p_value (par_Lp (fparams (snd (fit reject_second example_self 0.01 3 None)))) = 60
   \<and> p_value (par_Lp (self_fparams
         (fit_start (snd (fit reject_second example_self 0.01 3 None))))) = 60"
  by (simp add: fit_def fit_loop.simps reject_second_def example_defs)


subsection \<open>Claim C4: the summary row\<close>



subsection \<open>Claim C5: the number of iterations\<close>

text \<open>
  Claim C5 says that a negative \<open>min_delta\<close> makes the loop run exactly \<open>max_iters\<close>
  iterations. In the run below \<open>min_delta\<close> is \<open>-1\<close> and \<open>max_iters\<close> is 3; iteration 0
  is filtered out, iteration 1 calls the minimizer and raises \<open>KeyError\<close> on the
  missing label 0: the loop ends after two calls of the minimizer and one completed
  iteration.
\<close>

theorem fit_iterations_after_rejection:
  "fit_loop reject_first ''WLC'' None (- 1) 3 (fit_start example_self) =
     Inl (KeyError,
          \<lparr>self_fparams = set_Lp example_params 50, self_result = Some (fitted 1000 50),
           loc_df_full = [], loc_dLp = Infty, loc_i = 1, n_calls = 2\<rparr>)"
  by (simp add: fit_loop.simps reject_first_def example_defs)

subsection \<open>Claim C6: contradictory kBT and T\<close>

lemma getitem_not_ValueError: "getitem params k \<noteq> Inl ValueError"
  by (simp add: getitem_def split: option.splits)

lemma param_hint_not_ValueError: "param_hint params k \<noteq> Inl ValueError"
  using getitem_not_ValueError [of params]
  by (auto simp add: param_hint_def split: sum.splits)

lemma compile_kBT_ValueError_iff:
  "compile_kBT params = Inl ValueError \<longleftrightarrow>
     (\<exists>k T. params ''kBT'' = Some k \<and> params ''T'' = Some T \<and> k \<noteq> KB * (273.15 + T))"
  by (auto simp add: compile_kBT_def getitem_def dom_def split: option.splits)

lemma compile_ValueError_kBT:
  "compile self params = Inl ValueError \<longleftrightarrow> compile_kBT params = Inl ValueError"
  using param_hint_not_ValueError [of params]
  by (auto simp add: compile_def split: sum.splits if_splits)

lemma compile_kBT_spec_params:
  "compile_kBT (spec_params k T) = (if k = KB * (273.15 + T) then Inr k else Inl ValueError)"
  by (simp add: compile_kBT_def spec_params_def getitem_def)

lemma param_hint_spec_params:
  "param_hint (spec_params k T) ''Lc'' = Inr \<lparr>p_value = 1000, p_min = 500, p_max = 1500\<rparr>"
  "param_hint (spec_params k T) ''Lp'' = Inr \<lparr>p_value = 40, p_min = 10, p_max = 100\<rparr>"
  "param_hint (spec_params k T) ''S'' = Inr \<lparr>p_value = 1000, p_min = 100, p_max = 2000\<rparr>"
  by (simp_all add: param_hint_def spec_params_def getitem_def)

text \<open>
  Claim C6, as amended. \<open>compile\<close> raises \<open>ValueError\<close> if and only if both \<open>kBT\<close>
  and \<open>T\<close> are given and \<open>kBT\<close> differs from \<open>0.013806 * (273.15 + T)\<close>; the
  comparison is exact. So \<open>kBT = 4.1\<close> with \<open>T = 1000\<close> raises, and \<open>kBT = 4.1\<close>
  with \<open>T = 25\<close> raises too, as \<open>0.013806 * 298.15 = 4.1162589\<close>; with \<open>T = 25\<close>
  it is \<open>kBT = 4.1162589\<close> that compiles.
\<close>

theorem compile_contradiction:
  "(compile self params = Inl ValueError \<longleftrightarrow>
      (\<exists>k T. params ''kBT'' = Some k \<and> params ''T'' = Some T \<and> k \<noteq> KB * (273.15 + T)))
   \<and> compile self (spec_params 4.1 1000) = Inl ValueError
   \<and> compile self (spec_params 4.1 25) = Inl ValueError
   \<and> (\<exists>c. compile self (spec_params 4.1162589 25) = Inr c \<and> par_kBT (fparams c) = 4.1162589)"
proof (intro conjI)
  show "compile self params = Inl ValueError \<longleftrightarrow>
      (\<exists>k T. params ''kBT'' = Some k \<and> params ''T'' = Some T \<and> k \<noteq> KB * (273.15 + T))"
    by (simp only: compile_ValueError_kBT compile_kBT_ValueError_iff)
  show "compile self (spec_params 4.1 1000) = Inl ValueError"
    by (simp add: compile_def compile_kBT_spec_params KB_def)
  show "compile self (spec_params 4.1 25) = Inl ValueError"
    by (simp add: compile_def compile_kBT_spec_params KB_def)
  show "\<exists>c. compile self (spec_params 4.1162589 25) = Inr c \<and> par_kBT (fparams c) = 4.1162589"
    by (simp add: compile_def compile_kBT_spec_params param_hint_spec_params KB_def)
qed

theorem compile_contradiction_witness:
  "spec_params 4.1 1000 ''kBT'' = Some 4.1 \<and> spec_params 4.1 1000 ''T'' = Some 1000
   \<and> (4.1::real) \<noteq> KB * (273.15 + 1000)
   \<and> compile \<lparr>func = func_odijk, model = ''odijk''\<rparr> (spec_params 4.1 1000) = Inl ValueError"
  using compile_contradiction [of "\<lparr>func = func_odijk, model = ''odijk''\<rparr>" "spec_params 4.1 1000"]
  by (simp add: spec_params_def KB_def)

text \<open>
  The claim as it was stated has \<open>compile\<close> succeed for \<open>kBT = 4.1\<close> and \<open>T = 25\<close>.
\<close>

theorem compile_contradiction_counterexample:
  "compile \<lparr>func = func_odijk, model = ''odijk''\<rparr> (spec_params 4.1 25) = Inl ValueError"
  by (simp add: compile_def compile_kBT_spec_params KB_def)

subsection \<open>Claim C7: the model names\<close>

text \<open>
  Claim C7, as amended. The constructor raises \<open>ValueError\<close> if and only if the name
  is none of \<open>WLC\<close>, \<open>bouchiat\<close>, \<open>odijk\<close> and \<open>eWLC\<close>, and for each of these four
  it returns an instance of that model.
\<close>

theorem init_unknown_model:
  "(init m = Inl ValueError \<longleftrightarrow> m \<notin> {''WLC'', ''bouchiat'', ''odijk'', ''eWLC''})
   \<and> (m \<in> {''WLC'', ''bouchiat'', ''odijk'', ''eWLC''} \<longrightarrow> (\<exists>w. init m = Inr w \<and> model w = m))"
  by (simp add: init_def)

theorem init_unknown_model_witness:
  "''eWLC'' \<in> {''WLC'', ''bouchiat'', ''odijk'', ''eWLC''}
   \<and> init ''eWLC'' = Inr \<lparr>func = func_eWLC, model = ''eWLC''\<rparr>
   \<and> init ''ebouchiat'' = Inl ValueError"
  using init_unknown_model [of "''eWLC''"] init_unknown_model [of "''ebouchiat''"]
  by (simp add: init_def)

text \<open>
  The claim as it was stated has the constructor accept \<open>ebouchiat\<close>.
\<close>

theorem init_ebouchiat_counterexample:
  "init ''ebouchiat'' = Inl ValueError"
  by (simp add: init_def)

end
